theory Spec2Isabelle
  imports Complex_Main "HOL-Library.AList"
begin

section \<open>The cart prototype: data model\<close>

text \<open>
  The TypeScript type \<^verbatim>\<open>number\<close> is modelled as \<^typ>\<open>real\<close>: every double is a real.
  The pricing tree and the pipeline are modelled with exact arithmetic. Where a result is
  decided by the rounding of a double operation, namely the product under \<^verbatim>\<open>Math.floor\<close>
  in the bonus points and the product and quotient around \<^verbatim>\<open>Math.round\<close> in the rounding to
  cents, the operation is the IEEE operation of the section on doubles below. Optional
  boolean fields (\<^verbatim>\<open>isSaleItem?: boolean\<close>) are \<^typ>\<open>bool option\<close>, read through JavaScript
  truthiness.
\<close>

record CartItem =
  item_id :: string
  item_name :: string
  price :: real
  quantity :: real
  isSaleItem :: "bool option"
  isEligibleForBonus :: "bool option"

text \<open>A \<^verbatim>\<open>Date\<close>, of which the code reads \<^verbatim>\<open>getMonth()\<close> and \<^verbatim>\<open>getDate()\<close> only.\<close>

record JSDate =
  getFullYear :: int
  getMonth :: nat
  getDate :: nat

record Customer =
  customer_id :: string
  email :: string
  isNewCustomer :: bool
  birthday :: "JSDate option"
  bonusPoints :: real

record PriceContext =
  customer :: Customer
  cartItems :: "CartItem list"
  intermediateAmount :: real

text \<open>
  The two classes implementing \<^verbatim>\<open>CartComponent\<close>. JavaScript compares objects by
  reference, so every object carries its identity as its first argument:
  \<open>Product ref item\<close> and \<open>Bundle ref name quantity bundleDiscount components\<close>.
\<close>

datatype CartComponent =
    Product nat CartItem
  | Bundle nat string real real "CartComponent list"

text \<open>The four classes implementing \<^verbatim>\<open>PriceModificationStrategy\<close>.\<close>

datatype PriceModificationStrategy =
    NewCustomerDiscountStrategy
  | BirthdayDiscountStrategy
  | VATStrategy
  | VolumeDiscountStrategy

record Cart =
  components :: "CartComponent list"
  priceStrategies :: "PriceModificationStrategy list"
  cart_customer :: Customer

section \<open>JavaScript primitives used by the code\<close>

text \<open>Truthiness of an optional boolean: \<^verbatim>\<open>undefined\<close> is falsy.\<close>

fun truthy :: "bool option \<Rightarrow> bool" where
  "truthy None = False"
| "truthy (Some b) = b"

text \<open>\<^verbatim>\<open>Array.prototype.some\<close>.\<close>

fun some :: "('a \<Rightarrow> bool) \<Rightarrow> 'a list \<Rightarrow> bool" where
  "some p [] = False"
| "some p (x # xs) = (if p x then True else some p xs)"

text \<open>\<^verbatim>\<open>Math.round\<close>: the nearest integer, a tie going towards plus infinity.\<close>

definition Math_round :: "real \<Rightarrow> int" where
  "Math_round x = \<lfloor>x + 1 / 2\<rfloor>"

text \<open>The reference of an object, and \<^verbatim>\<open>===\<close> on objects.\<close>

fun ref_of :: "CartComponent \<Rightarrow> nat" where
  "ref_of (Product r item) = r"
| "ref_of (Bundle r n q d cs) = r"

definition strict_eq :: "CartComponent \<Rightarrow> CartComponent \<Rightarrow> bool" where
  "strict_eq a b = (ref_of a = ref_of b)"

text \<open>\<^verbatim>\<open>Array.prototype.indexOf\<close>: the first index holding the object, or \<open>-1\<close>.\<close>

fun indexOf :: "CartComponent list \<Rightarrow> CartComponent \<Rightarrow> int" where
  "indexOf [] c = -1"
| "indexOf (x # xs) c =
     (if strict_eq x c then 0
      else (let i = indexOf xs c in if i = -1 then -1 else i + 1))"

text \<open>\<^verbatim>\<open>xs.splice(index, 1)\<close> for an index that is not negative.\<close>

definition splice1 :: "'a list \<Rightarrow> int \<Rightarrow> 'a list" where
  "splice1 xs index = take (nat index) xs @ drop (nat index + 1) xs"

text \<open>\<^verbatim>\<open>v || 0\<close> on the result of \<^verbatim>\<open>Map.get\<close>: \<^verbatim>\<open>undefined\<close> and \<open>0\<close> are falsy.\<close>

fun or_zero :: "real option \<Rightarrow> real" where
  "or_zero None = 0"
| "or_zero (Some v) = (if v = 0 then 0 else v)"

section \<open>IEEE doubles\<close>

text \<open>
  \<open>binary64 x\<close> is the double nearest to the real \<open>x\<close>: round to nearest with 53 significant
  bits, a tie going to the even significand, with the fixed spacing \<open>2\<^sup>-\<^sup>1\<^sup>0\<^sup>7\<^sup>4\<close> of the
  subnormal range. A double operation returns the exact result rounded this way. Reals
  beyond the largest double, which IEEE arithmetic turns into an infinity, and NaN are
  outside the model.
\<close>

definition pow2 :: "int \<Rightarrow> real" where
  "pow2 e = (if 0 \<le> e then 2 ^ nat e else 1 / 2 ^ nat (- e))"

definition round_half_even :: "real \<Rightarrow> int" where
  "round_half_even x =
     (let f = \<lfloor>x\<rfloor>; r = x - real_of_int f
      in if r < 1 / 2 then f else if 1 / 2 < r then f + 1 else if even f then f else f + 1)"

definition binary64 :: "real \<Rightarrow> real" where
  "binary64 x =
     (if x = 0 then 0
      else
        let e = max \<lfloor>log 2 \<bar>x\<bar>\<rfloor> (- 1022);
            ulp = pow2 (e - 52)
        in real_of_int (round_half_even (x / ulp)) * ulp)"



definition js_mul :: "real \<Rightarrow> real \<Rightarrow> real" where
  "js_mul a b = binary64 (a * b)"


section \<open>composite/cart-components.ts\<close>

text \<open>
  \<^verbatim>\<open>Product.getPrice\<close> and \<^verbatim>\<open>Bundle.getPrice\<close>. The loop of the bundle adds the
  children's prices to \<open>totalPrice\<close>, starting from \<open>0\<close>; the discount is applied only
  when it is greater than \<open>0\<close>.
\<close>

fun getPrice :: "CartComponent \<Rightarrow> real" where
  "getPrice (Product r item) = price item * quantity item"
| "getPrice (Bundle r n q bundleDiscount cs) =
     (let totalPrice = foldl (\<lambda>total component. total + getPrice component) 0 cs;
          totalPrice = (if bundleDiscount > 0 then totalPrice * (1 - bundleDiscount)
                        else totalPrice)
      in totalPrice * q)"

fun getQuantity :: "CartComponent \<Rightarrow> real" where
  "getQuantity (Product r item) = quantity item"
| "getQuantity (Bundle r n q bundleDiscount cs) = q"

text \<open>\<^verbatim>\<open>Bundle.add\<close> and \<^verbatim>\<open>Bundle.remove\<close>, defined on bundles only.\<close>

fun Bundle_add :: "CartComponent \<Rightarrow> CartComponent \<Rightarrow> CartComponent" where
  "Bundle_add (Bundle r n q d cs) component = Bundle r n q d (cs @ [component])"

fun Bundle_remove :: "CartComponent \<Rightarrow> CartComponent \<Rightarrow> CartComponent" where
  "Bundle_remove (Bundle r n q d cs) component =
     (let index = indexOf cs component
      in if index > -1 then Bundle r n q d (splice1 cs index) else Bundle r n q d cs)"

text \<open>
  \<^verbatim>\<open>Bundle.getAllItems\<close>, as a function of the bundle's component array: the item of a
  product, all items of a nested bundle, in order.
\<close>

fun getAllItems :: "CartComponent list \<Rightarrow> CartItem list" where
  "getAllItems [] = []"
| "getAllItems (Product r item # rest) = item # getAllItems rest"
| "getAllItems (Bundle r n q d cs # rest) = getAllItems cs @ getAllItems rest"

section \<open>strategies/price-strategies.ts\<close>

text \<open>
  \<^verbatim>\<open>isBirthday\<close> reads the clock (\<^verbatim>\<open>new Date()\<close>); the model takes today's date as
  an argument.
\<close>

definition isBirthday :: "JSDate \<Rightarrow> JSDate \<Rightarrow> bool" where
  "isBirthday today bday = (getMonth bday = getMonth today \<and> getDate bday = getDate today)"

definition NewCustomerDiscount_apply :: "real \<Rightarrow> PriceContext \<Rightarrow> real" where
  "NewCustomerDiscount_apply amount context =
     (if \<not> isNewCustomer (customer context) then amount
      else
        let hasSaleItems = some (\<lambda>item. truthy (isSaleItem item)) (cartItems context)
        in if hasSaleItems then amount
           else (let discount = min (amount * 0.05) 100 in amount - discount))"

definition BirthdayDiscount_apply :: "JSDate \<Rightarrow> real \<Rightarrow> PriceContext \<Rightarrow> real" where
  "BirthdayDiscount_apply today amount context =
     (if (case birthday (customer context) of None \<Rightarrow> True
          | Some bday \<Rightarrow> \<not> isBirthday today bday) then amount
      else if isNewCustomer (customer context) then amount
      else
        let hasSaleItems = some (\<lambda>item. truthy (isSaleItem item)) (cartItems context)
        in if hasSaleItems then amount
           else (let discount = amount * 0.03 in amount - discount))"

definition VAT_apply :: "real \<Rightarrow> PriceContext \<Rightarrow> real" where
  "VAT_apply amount context = amount * (1 + 0.077)"

text \<open>The tiers, as pairs of \<open>minQuantity\<close> and \<open>discountPercentage\<close>.\<close>

definition discountTiers :: "(real \<times> real) list" where
  "discountTiers = [(10, 0.05), (20, 0.10), (50, 0.20)]"

definition getDiscountForQuantity :: "real \<Rightarrow> real" where
  "getDiscountForQuantity qty =
     foldl (\<lambda>applicableDiscount (minQuantity, discountPercentage).
              if qty \<ge> minQuantity then discountPercentage else applicableDiscount)
       0 discountTiers"

text \<open>
  The \<^verbatim>\<open>Map\<close> of summed quantities is an association list in insertion order:
  \<^verbatim>\<open>set\<close> on a key that is present keeps its place, as \<^const>\<open>AList.update\<close> does.
  \<open>addQuantity\<close> is the callback of the first \<^verbatim>\<open>forEach\<close>.
\<close>

definition addQuantity :: "(string \<times> real) list \<Rightarrow> CartItem \<Rightarrow> (string \<times> real) list" where
  "addQuantity itemQuantities item =
     (let currentQuantity = or_zero (map_of itemQuantities (item_id item))
      in AList.update (item_id item) (currentQuantity + quantity item) itemQuantities)"

definition itemQuantities_of :: "CartItem list \<Rightarrow> (string \<times> real) list" where
  "itemQuantities_of items = foldl addQuantity [] items"

text \<open>The callback of the second \<^verbatim>\<open>forEach\<close>, which adds one entry's discount.\<close>

definition addDiscount :: "CartItem list \<Rightarrow> real \<Rightarrow> string \<times> real \<Rightarrow> real" where
  "addDiscount items totalDiscount entry =
     (case entry of (itemId, qty) \<Rightarrow>
        (case find (\<lambda>i. item_id i = itemId) items of
           None \<Rightarrow> totalDiscount
         | Some item \<Rightarrow>
             (let applicableDiscount = getDiscountForQuantity qty
              in if applicableDiscount > 0
                 then (let itemTotal = price item * qty
                       in totalDiscount + itemTotal * applicableDiscount)
                 else totalDiscount)))"

definition VolumeDiscount_apply :: "real \<Rightarrow> PriceContext \<Rightarrow> real" where
  "VolumeDiscount_apply amount context =
     (let itemQuantities = itemQuantities_of (cartItems context);
          totalDiscount = foldl (addDiscount (cartItems context)) 0 itemQuantities
      in amount - totalDiscount)"

text \<open>Dynamic dispatch of \<^verbatim>\<open>strategy.apply(amount, context)\<close>.\<close>

fun apply_strategy :: "PriceModificationStrategy \<Rightarrow> JSDate \<Rightarrow> real \<Rightarrow> PriceContext \<Rightarrow> real" where
  "apply_strategy NewCustomerDiscountStrategy today amount context =
     NewCustomerDiscount_apply amount context"
| "apply_strategy BirthdayDiscountStrategy today amount context =
     BirthdayDiscount_apply today amount context"
| "apply_strategy VATStrategy today amount context = VAT_apply amount context"
| "apply_strategy VolumeDiscountStrategy today amount context =
     VolumeDiscount_apply amount context"

subsection \<open>The calls with their effects\<close>

text \<open>
  A call of \<^verbatim>\<open>apply\<close> receives the amount by value and the context by reference. Besides
  its arguments it can read the system clock, and it can write to the context object and
  to the customer and the items that the object refers to. The state of a call is the
  clock together with that object; a call returns its result and the state it leaves
  behind. The bodies are those of the functions above: \<^verbatim>\<open>new Date()\<close> reads the clock, and
  no statement of the four bodies assigns to the context, so each \<^verbatim>\<open>return\<close> hands the
  state back as it was received.
\<close>

record Runtime =
  clock :: JSDate
  context_object :: PriceContext

definition NewCustomerDiscount_call :: "real \<Rightarrow> Runtime \<Rightarrow> real \<times> Runtime" where
  "NewCustomerDiscount_call amount rt =
     (let context = context_object rt
      in if \<not> isNewCustomer (customer context) then (amount, rt)
         else
           let hasSaleItems = some (\<lambda>item. truthy (isSaleItem item)) (cartItems context)
           in if hasSaleItems then (amount, rt)
              else (let discount = min (amount * 0.05) 100 in (amount - discount, rt)))"

definition BirthdayDiscount_call :: "real \<Rightarrow> Runtime \<Rightarrow> real \<times> Runtime" where
  "BirthdayDiscount_call amount rt =
     (let context = context_object rt
      in if (case birthday (customer context) of None \<Rightarrow> True
             | Some bday \<Rightarrow> (let today = clock rt in \<not> isBirthday today bday))
         then (amount, rt)
         else if isNewCustomer (customer context) then (amount, rt)
         else
           let hasSaleItems = some (\<lambda>item. truthy (isSaleItem item)) (cartItems context)
           in if hasSaleItems then (amount, rt)
              else (let discount = amount * 0.03 in (amount - discount, rt)))"

definition VAT_call :: "real \<Rightarrow> Runtime \<Rightarrow> real \<times> Runtime" where
  "VAT_call amount rt = (amount * (1 + 0.077), rt)"

definition VolumeDiscount_call :: "real \<Rightarrow> Runtime \<Rightarrow> real \<times> Runtime" where
  "VolumeDiscount_call amount rt =
     (let context = context_object rt;
          itemQuantities = itemQuantities_of (cartItems context);
          totalDiscount = foldl (addDiscount (cartItems context)) 0 itemQuantities
      in (amount - totalDiscount, rt))"

fun call_apply :: "PriceModificationStrategy \<Rightarrow> real \<Rightarrow> Runtime \<Rightarrow> real \<times> Runtime" where
  "call_apply NewCustomerDiscountStrategy amount rt = NewCustomerDiscount_call amount rt"
| "call_apply BirthdayDiscountStrategy amount rt = BirthdayDiscount_call amount rt"
| "call_apply VATStrategy amount rt = VAT_call amount rt"
| "call_apply VolumeDiscountStrategy amount rt = VolumeDiscount_call amount rt"

section \<open>models/interfaces.ts: class Cart\<close>

definition addComponent :: "Cart \<Rightarrow> CartComponent \<Rightarrow> Cart" where
  "addComponent cart component = cart\<lparr>components := components cart @ [component]\<rparr>"

definition removeComponent :: "Cart \<Rightarrow> CartComponent \<Rightarrow> Cart" where
  "removeComponent cart component =
     (let index = indexOf (components cart) component
      in if index > -1 then cart\<lparr>components := splice1 (components cart) index\<rparr>
         else cart)"

definition addPriceStrategy :: "Cart \<Rightarrow> PriceModificationStrategy \<Rightarrow> Cart" where
  "addPriceStrategy cart strategy = cart\<lparr>priceStrategies := priceStrategies cart @ [strategy]\<rparr>"

definition clearStrategies :: "Cart \<Rightarrow> Cart" where
  "clearStrategies cart = cart\<lparr>priceStrategies := []\<rparr>"

definition getSubtotal :: "Cart \<Rightarrow> real" where
  "getSubtotal cart =
     foldl (\<lambda>total component. total + getPrice component) 0 (components cart)"

text \<open>\<^verbatim>\<open>Cart.getAllCartItems\<close>: the loop over the top-level components.\<close>

fun getAllCartItems_loop :: "CartComponent list \<Rightarrow> CartItem list" where
  "getAllCartItems_loop [] = []"
| "getAllCartItems_loop (Bundle r n q d cs # rest) = getAllItems cs @ getAllCartItems_loop rest"
| "getAllCartItems_loop (Product r item # rest) = item # getAllCartItems_loop rest"

definition getAllCartItems :: "Cart \<Rightarrow> CartItem list" where
  "getAllCartItems cart = getAllCartItems_loop (components cart)"

text \<open>
  The loop of \<^verbatim>\<open>calculateTotal\<close> over the strategies: each pass builds a context from
  the customer, the item list taken before the loop and the current amount, and
  replaces the current amount by the strategy's result.
\<close>

fun strategies_loop ::
  "JSDate \<Rightarrow> Customer \<Rightarrow> CartItem list \<Rightarrow> PriceModificationStrategy list \<Rightarrow> real \<Rightarrow> real" where
  "strategies_loop today cust allItems [] currentAmount = currentAmount"
| "strategies_loop today cust allItems (strategy # rest) currentAmount =
     (let context = \<lparr>customer = cust, cartItems = allItems,
                     intermediateAmount = currentAmount\<rparr>
      in strategies_loop today cust allItems rest
           (apply_strategy strategy today currentAmount context))"

definition calculateTotal :: "JSDate \<Rightarrow> Cart \<Rightarrow> real" where
  "calculateTotal today cart =
     (let currentAmount = getSubtotal cart;
          allItems = getAllCartItems cart;
          currentAmount =
            strategies_loop today (cart_customer cart) allItems (priceStrategies cart)
              currentAmount
      in real_of_int (Math_round (currentAmount * 100)) / 100)"


text \<open>
  \<^verbatim>\<open>calculateBonusPoints\<close>. The product under \<^verbatim>\<open>Math.floor\<close> is the double product. The
  floors are integers, and the sum of integers and its tenfold are exact in doubles up to
  \<open>2\<^sup>5\<^sup>3\<close>, so the points are accumulated as an integer.
\<close>

definition calculateBonusPoints :: "JSDate \<Rightarrow> Cart \<Rightarrow> int" where
  "calculateBonusPoints today cart =
     (let allItems = getAllCartItems cart;
          bonusPoints =
            foldl (\<lambda>bonusPoints item.
                     if truthy (isEligibleForBonus item)
                     then bonusPoints + \<lfloor>js_mul (price item) (quantity item)\<rfloor>
                     else bonusPoints)
              0 allItems;
          bonusPoints =
            (if (case birthday (cart_customer cart) of None \<Rightarrow> False
                 | Some bday \<Rightarrow> isBirthday today bday)
             then bonusPoints * 10 else bonusPoints)
      in bonusPoints)"

section \<open>Reference definitions, following the specification\<close>

text \<open>
  The aggregate value of a node as the specification defines it: a leaf is worth unit price
  times quantity, a group the sum of its children times \<open>1 - discount\<close> times its
  multiplier quantity.
\<close>

fun aggregateValue :: "CartComponent \<Rightarrow> real" where
  "aggregateValue (Product r item) = price item * quantity item"
| "aggregateValue (Bundle r n q d cs) = sum_list (map aggregateValue cs) * (1 - d) * q"

text \<open>The flattened item list of a node: the items of its leaves, depth first.\<close>

fun flattenItems :: "CartComponent \<Rightarrow> CartItem list" where
  "flattenItems (Product r item) = [item]"
| "flattenItems (Bundle r n q d cs) = concat (map flattenItems cs)"

text \<open>No group of the node has a negative discount.\<close>

fun discounts_nonneg :: "CartComponent \<Rightarrow> bool" where
  "discounts_nonneg (Product r item) = True"
| "discounts_nonneg (Bundle r n q d cs) = (0 \<le> d \<and> list_all discounts_nonneg cs)"

text \<open>
  The data model of the specification: unit prices from \<open>0\<close>, quantities from \<open>1\<close>,
  discount fractions in \<open>[0, 1)\<close>.
\<close>

fun valid_node :: "CartComponent \<Rightarrow> bool" where
  "valid_node (Product r item) = (0 \<le> price item \<and> 1 \<le> quantity item)"
| "valid_node (Bundle r n q d cs) = (1 \<le> q \<and> 0 \<le> d \<and> d < 1 \<and> list_all valid_node cs)"


text \<open>
  The volume discount as the specification words it: the quantities of an id summed over
  the whole list, the highest tier that the sum reaches, the unit price of the first item
  with that id, and their product as the discount of the id.
\<close>

definition summed_quantity :: "CartItem list \<Rightarrow> string \<Rightarrow> real" where
  "summed_quantity items i = sum_list (map quantity (filter (\<lambda>item. item_id item = i) items))"

definition tier_fraction :: "real \<Rightarrow> real" where
  "tier_fraction q =
     (if q \<ge> 50 then 0.20 else if q \<ge> 20 then 0.10 else if q \<ge> 10 then 0.05 else 0)"

definition first_price :: "CartItem list \<Rightarrow> string \<Rightarrow> real" where
  "first_price items i =
     (case find (\<lambda>item. item_id item = i) items of None \<Rightarrow> 0 | Some item \<Rightarrow> price item)"

definition id_discount :: "CartItem list \<Rightarrow> string \<Rightarrow> real" where
  "id_discount items i =
     first_price items i * summed_quantity items i * tier_fraction (summed_quantity items i)"

text \<open>The discount that one entry of the quantity map contributes.\<close>

definition entry_discount :: "CartItem list \<Rightarrow> string \<times> real \<Rightarrow> real" where
  "entry_discount items entry = addDiscount items 0 entry"

section \<open>Concrete carts\<close>

definition a_day :: JSDate where
  "a_day = \<lparr>getFullYear = 2025, getMonth = 2, getDate = 15\<rparr>"

definition next_day :: JSDate where
  "next_day = \<lparr>getFullYear = 2025, getMonth = 2, getDate = 16\<rparr>"

definition existing_customer :: Customer where
  "existing_customer = \<lparr>customer_id = ''cust001'', email = ''test@example.com'',
     isNewCustomer = False, birthday = None, bonusPoints = 0\<rparr>"

definition new_customer :: Customer where
  "new_customer = existing_customer\<lparr>isNewCustomer := True\<rparr>"

definition birthday_customer :: Customer where
  "birthday_customer = existing_customer
     \<lparr>birthday := Some \<lparr>getFullYear = 1990, getMonth = 2, getDate = 15\<rparr>\<rparr>"

definition mk_item :: "string \<Rightarrow> real \<Rightarrow> real \<Rightarrow> CartItem" where
  "mk_item i p q = \<lparr>item_id = i, item_name = i, price = p, quantity = q,
     isSaleItem = None, isEligibleForBonus = None\<rparr>"

definition item100 :: CartItem where
  "item100 = (mk_item ''item1'' 100 1)\<lparr>isSaleItem := Some False\<rparr>"

definition item100_sale :: CartItem where
  "item100_sale = (mk_item ''item1'' 100 1)\<lparr>isSaleItem := Some True\<rparr>"

text \<open>The nested bundles of the README's test: \<open>((10 + 20) * 0.9 + 30) * 0.95 = 54.15\<close>.\<close>

definition nested_bundle :: CartComponent where
  "nested_bundle =
     Bundle 1 ''Outer Bundle'' 1 0.05
       [Bundle 2 ''Inner Bundle'' 1 0.1
          [Product 3 (mk_item ''item1'' 10 1), Product 4 (mk_item ''item2'' 20 1)],
        Product 5 (mk_item ''item3'' 30 1)]"

definition negative_discount_bundle :: CartComponent where
  "negative_discount_bundle = Bundle 1 ''bundle'' 1 (- 0.5) [Product 2 (mk_item ''item1'' 10 1)]"

definition plain_cart :: Cart where
  "plain_cart = \<lparr>components = [Product 1 item100], priceStrategies = [],
     cart_customer = existing_customer\<rparr>"

definition newcustomer_vat_cart :: Cart where
  "newcustomer_vat_cart = \<lparr>components = [Product 1 item100],
     priceStrategies = [NewCustomerDiscountStrategy, VATStrategy],
     cart_customer = new_customer\<rparr>"

text \<open>
  A cart inside the data model whose total is negative: fifty units at 0.5 in a bundle with
  discount 0.875 are worth 3.125, and the volume discount takes 5 off.
\<close>

definition negative_total_cart :: Cart where
  "negative_total_cart =
     \<lparr>components = [Bundle 1 ''bundle'' 1 0.875 [Product 2 (mk_item ''item1'' 0.5 50)]],
      priceStrategies = [VolumeDiscountStrategy],
      cart_customer = existing_customer\<rparr>"

definition volume_context :: PriceContext where
  "volume_context = \<lparr>customer = existing_customer,
     cartItems = [(mk_item ''item1'' 10 15)\<lparr>isSaleItem := Some False\<rparr>],
     intermediateAmount = 150\<rparr>"

definition small_context :: PriceContext where
  "small_context = \<lparr>customer = existing_customer,
     cartItems = [mk_item ''item1'' 10 4, mk_item ''item2'' 7 3, mk_item ''item1'' 10 5],
     intermediateAmount = 111\<rparr>"

definition new_customer_context :: PriceContext where
  "new_customer_context = \<lparr>customer = new_customer, cartItems = [item100],
     intermediateAmount = 100\<rparr>"

definition sale_context :: PriceContext where
  "sale_context = \<lparr>customer = new_customer, cartItems = [item100, item100_sale],
     intermediateAmount = 200\<rparr>"

definition existing_customer_context :: PriceContext where
  "existing_customer_context = \<lparr>customer = existing_customer, cartItems = [item100],
     intermediateAmount = 100\<rparr>"

definition birthday_context :: PriceContext where
  "birthday_context = \<lparr>customer = birthday_customer, cartItems = [item100],
     intermediateAmount = 100\<rparr>"

definition bonus_cart :: Cart where
  "bonus_cart =
     \<lparr>components =
        [Product 1 ((mk_item ''laptop001'' 1500 1)\<lparr>isEligibleForBonus := Some True\<rparr>),
         Product 2 ((mk_item ''keyboard001'' 120 1)\<lparr>isEligibleForBonus := Some False\<rparr>),
         Bundle 3 ''bundle'' 1 0.15
           [Product 4 ((mk_item ''pen001'' (binary64 9.99) 3)
                         \<lparr>isEligibleForBonus := Some True\<rparr>),
            Bundle 5 ''cables'' 1 0.1 [Product 6 (mk_item ''hdmi001'' 25 2)]]],
      priceStrategies = [VATStrategy],
      cart_customer = birthday_customer\<rparr>"

text \<open>
  Two carts of one item eligible for bonus: ten units at the double \<^verbatim>\<open>0.7\<close>, and a
  hundred units at the double \<^verbatim>\<open>4.35\<close>.
\<close>

definition seven_tenths_cart :: Cart where
  "seven_tenths_cart =
     \<lparr>components =
        [Product 1 ((mk_item ''item1'' (binary64 0.7) 10)\<lparr>isEligibleForBonus := Some True\<rparr>)],
      priceStrategies = [], cart_customer = existing_customer\<rparr>"

definition four_thirty_five_cart :: Cart where
  "four_thirty_five_cart =
     \<lparr>components =
        [Product 1 ((mk_item ''item1'' (binary64 4.35) 100)\<lparr>isEligibleForBonus := Some True\<rparr>)],
      priceStrategies = [], cart_customer = existing_customer\<rparr>"

definition twice_added_cart :: Cart where
  "twice_added_cart =
     \<lparr>components = [Product 1 item100, Product 2 item100, Product 1 item100],
      priceStrategies = [VATStrategy], cart_customer = existing_customer\<rparr>"


section \<open>Shared lemmas\<close>

lemma foldl_add_sum_list:
  "foldl (\<lambda>acc x. acc + f x) a xs = a + sum_list (map f xs)"
  by (induction xs arbitrary: a) (simp_all add: add.assoc)

lemma getPrice_Bundle:
  "getPrice (Bundle r n q d cs) =
     (if d > 0 then sum_list (map getPrice cs) * (1 - d) else sum_list (map getPrice cs)) * q"
  by (simp add: foldl_add_sum_list Let_def)

lemma getSubtotal_sum_list: "getSubtotal cart = sum_list (map getPrice (components cart))"
  by (simp add: getSubtotal_def foldl_add_sum_list)

lemma sum_list_map_nonneg:
  "(\<forall>x\<in>set xs. 0 \<le> f x) \<Longrightarrow> 0 \<le> sum_list (map f xs :: real list)"
  by (induction xs) simp_all

lemma getPrice_eq_aggregateValue:
  "discounts_nonneg c \<Longrightarrow> getPrice c = aggregateValue c"
proof (induction c)
  case (Product r item)
  show ?case by simp
next
  case (Bundle r n q d cs)
  from Bundle.prems have d: "0 \<le> d" and sub: "\<forall>x\<in>set cs. discounts_nonneg x"
    by (simp_all add: list_all_iff)
  have "map getPrice cs = map aggregateValue cs"
    using Bundle.IH sub by simp
  then show ?case
    using d by (simp only: getPrice_Bundle aggregateValue.simps) (cases "d = 0"; simp)
qed

lemma getPrice_nonneg: "valid_node c \<Longrightarrow> 0 \<le> getPrice c"
proof (induction c)
  case (Product r item)
  then show ?case by simp
next
  case (Bundle r n q d cs)
  from Bundle.prems have q: "1 \<le> q" and d: "0 \<le> d" "d < 1"
    and sub: "\<forall>x\<in>set cs. valid_node x"
    by (simp_all add: list_all_iff)
  have s: "0 \<le> sum_list (map getPrice cs)"
    using Bundle.IH sub by (intro sum_list_map_nonneg) simp
  show ?case
    using s q d by (simp only: getPrice_Bundle) (simp split: if_splits)
qed

lemma some_iff: "some p xs \<longleftrightarrow> (\<exists>x\<in>set xs. p x)"
  by (induction xs) simp_all

lemma truthy_iff: "truthy b \<longleftrightarrow> b = Some True"
  by (cases b) simp_all

lemma getAllItems_concat: "getAllItems cs = concat (map flattenItems cs)"
  by (induction cs rule: getAllItems.induct) simp_all

lemma getAllCartItems_concat:
  "getAllCartItems cart = concat (map flattenItems (components cart))"
proof -
  have "getAllCartItems_loop cs = concat (map flattenItems cs)" for cs
    by (induction cs rule: getAllCartItems_loop.induct) (simp_all add: getAllItems_concat)
  then show ?thesis by (simp add: getAllCartItems_def)
qed

lemma strategies_loop_foldl:
  "strategies_loop today cust allItems rules a =
     foldl (\<lambda>amount rule. apply_strategy rule today amount
              \<lparr>customer = cust, cartItems = allItems, intermediateAmount = amount\<rparr>) a rules"
  by (induction rules arbitrary: a) (simp_all add: Let_def)

lemma foldl_bonus:
  "foldl (\<lambda>bonusPoints item. if p item then bonusPoints + f item else bonusPoints) (a::int) xs
     = a + sum_list (map f (filter p xs))"
  by (induction xs arbitrary: a) simp_all

lemma indexOf_absent: "\<forall>x\<in>set xs. \<not> strict_eq x c \<Longrightarrow> indexOf xs c = -1"
  by (induction xs) simp_all

lemma indexOf_first:
  "strict_eq x c \<Longrightarrow> \<forall>y\<in>set ys. \<not> strict_eq y c \<Longrightarrow>
     indexOf (ys @ x # zs) c = int (length ys)"
  by (induction ys) (simp_all add: Let_def)

lemma splice1_at: "splice1 (ys @ x # zs) (int (length ys)) = ys @ zs"
  by (simp add: splice1_def)

subsection \<open>Doubles\<close>

lemma pow2_pos: "0 < pow2 e"
  by (simp add: pow2_def)

lemma pow2_powr: "pow2 e = 2 powr real_of_int e"
  by (simp add: pow2_def powr_real_of_int inverse_eq_divide)

text \<open>The double nearest to a real whose binade is known.\<close>

lemma binary64_eval:
  assumes "pow2 e \<le> \<bar>x\<bar>" and "\<bar>x\<bar> < pow2 (e + 1)" and "- 1022 \<le> e"
  shows "binary64 x = real_of_int (round_half_even (x / pow2 (e - 52))) * pow2 (e - 52)"
proof -
  have pos: "0 < \<bar>x\<bar>"
    using assms(1) pow2_pos [of e] by linarith
  have "\<lfloor>log 2 \<bar>x\<bar>\<rfloor> = e"
    using assms(1,2) pos by (simp add: floor_log_eq_powr_iff pow2_powr)
  then show ?thesis
    using pos assms(3) by (simp add: binary64_def Let_def max_def)
qed



text \<open>The doubles that the decimal literals of the examples denote.\<close>

lemma double_0_7: "binary64 0.7 = 3152519739159347 / 2 ^ 52"
  using binary64_eval [of "-1" "0.7"]
  by (simp add: pow2_def round_half_even_def)

lemma double_4_35: "binary64 4.35 = 2448832297382707 / 2 ^ 49"
  using binary64_eval [of 2 "4.35"]
  by (simp add: pow2_def round_half_even_def)

lemma double_9_99: "binary64 9.99 = 5623870034678907 / 2 ^ 49"
  using binary64_eval [of 3 "9.99"]
  by (simp add: pow2_def round_half_even_def)







text \<open>Double products of the examples.\<close>

lemma product_0_7_times_10: "js_mul (binary64 0.7) 10 = 7"
  unfolding js_mul_def double_0_7
  using binary64_eval [of 2 "3152519739159347 / 2 ^ 52 * 10"]
  by (simp add: pow2_def round_half_even_def)

lemma product_4_35_times_100: "js_mul (binary64 4.35) 100 = 7652600929320959 / 2 ^ 44"
  unfolding js_mul_def double_4_35
  using binary64_eval [of 8 "2448832297382707 / 2 ^ 49 * 100"]
  by (simp add: pow2_def round_half_even_def)

lemma product_9_99_times_3: "js_mul (binary64 9.99) 3 = 1054475631502295 / 2 ^ 45"
  unfolding js_mul_def double_9_99
  using binary64_eval [of 4 "5623870034678907 / 2 ^ 49 * 3"]
  by (simp add: pow2_def round_half_even_def)

lemma product_1500_times_1: "js_mul 1500 1 = 1500"
  unfolding js_mul_def
  using binary64_eval [of 10 "1500 * 1"]
  by (simp add: pow2_def round_half_even_def)



















lemma call_apply_result:
  "fst (call_apply s amount rt) = apply_strategy s (clock rt) amount (context_object rt)"
  by (cases s)
     (simp_all add: NewCustomerDiscount_call_def NewCustomerDiscount_apply_def
        BirthdayDiscount_call_def BirthdayDiscount_apply_def VAT_call_def VAT_apply_def
        VolumeDiscount_call_def VolumeDiscount_apply_def Let_def split: option.splits)

lemma call_apply_state: "snd (call_apply s amount rt) = rt"
  by (cases s)
     (simp_all add: NewCustomerDiscount_call_def BirthdayDiscount_call_def VAT_call_def
        VolumeDiscount_call_def Let_def split: option.splits)

subsection \<open>The quantity map of the volume discount\<close>

lemma getDiscountForQuantity_tier: "getDiscountForQuantity q = tier_fraction q"
  by (simp add: getDiscountForQuantity_def discountTiers_def tier_fraction_def)

lemma distinct_foldl_addQuantity:
  "distinct (map fst m) \<Longrightarrow> distinct (map fst (foldl addQuantity m items))"
  by (induction items arbitrary: m) (simp_all add: addQuantity_def distinct_update Let_def)

lemma map_of_foldl_addQuantity:
  "map_of (foldl addQuantity m items) k =
     (if k \<in> fst ` set m \<or> k \<in> item_id ` set items
      then Some (or_zero (map_of m k) + summed_quantity items k) else None)"
proof (induction items arbitrary: m)
  case Nil
  show ?case
  proof (cases "map_of m k")
    case None
    then show ?thesis by (simp add: map_of_eq_None_iff)
  next
    case (Some v)
    then have "k \<in> fst ` set m"
      using map_of_eq_None_iff [of m k] by simp
    with Some show ?thesis by (simp add: summed_quantity_def)
  qed
next
  case (Cons item items)
  have keys: "fst ` set (addQuantity m item) = insert (item_id item) (fst ` set m)"
    by (simp add: addQuantity_def update_conv' Let_def flip: dom_map_of_conv_image_fst)
  have val: "map_of (addQuantity m item) k =
      (if k = item_id item then Some (or_zero (map_of m k) + quantity item) else map_of m k)"
    by (simp add: addQuantity_def update_conv' Let_def)
  show ?case
    by (simp only: foldl_Cons Cons.IH keys val) (auto simp: summed_quantity_def)
qed

lemma map_of_itemQuantities_of:
  "map_of (itemQuantities_of items) k =
     (if k \<in> item_id ` set items then Some (summed_quantity items k) else None)"
  by (simp add: itemQuantities_of_def map_of_foldl_addQuantity)

lemma distinct_itemQuantities_of: "distinct (map fst (itemQuantities_of items))"
  by (simp add: itemQuantities_of_def distinct_foldl_addQuantity)

lemma set_itemQuantities_of:
  "set (itemQuantities_of items) = (\<lambda>k. (k, summed_quantity items k)) ` item_id ` set items"
proof -
  have "(k, v) \<in> set (itemQuantities_of items) \<longleftrightarrow>
        (k, v) \<in> (\<lambda>k. (k, summed_quantity items k)) ` item_id ` set items" for k v
    using map_of_eq_Some_iff [OF distinct_itemQuantities_of, of items k v]
    by (auto simp: map_of_itemQuantities_of split: if_splits)
  then show ?thesis by auto
qed

lemma addDiscount_entry_discount:
  "addDiscount items acc entry = acc + entry_discount items entry"
  by (cases entry) (simp add: addDiscount_def entry_discount_def Let_def split: option.splits)

lemma foldl_addDiscount:
  "foldl (addDiscount items) a m = a + sum_list (map (entry_discount items) m)"
  by (induction m arbitrary: a) (simp_all add: addDiscount_entry_discount)

lemma entry_discount_id:
  "k \<in> item_id ` set items \<Longrightarrow>
     entry_discount items (k, summed_quantity items k) = id_discount items k"
  by (auto simp: entry_discount_def addDiscount_def id_discount_def first_price_def
      getDiscountForQuantity_tier tier_fraction_def find_None_iff Let_def split: option.splits)

lemma VolumeDiscount_apply_spec:
  "VolumeDiscount_apply amount context =
     amount - (\<Sum>i\<in>item_id ` set (cartItems context). id_discount (cartItems context) i)"
proof -
  let ?items = "cartItems context"
  have d: "distinct (itemQuantities_of ?items)"
    using distinct_itemQuantities_of [of ?items] by (simp add: distinct_map)
  have inj: "inj_on (\<lambda>k. (k, summed_quantity ?items k)) (item_id ` set ?items)"
    by (rule inj_onI) simp
  have "sum_list (map (entry_discount ?items) (itemQuantities_of ?items))
      = sum (entry_discount ?items) (set (itemQuantities_of ?items))"
    using d by (rule sum_list_distinct_conv_sum_set)
  also have "\<dots> =
      (\<Sum>k\<in>item_id ` set ?items. entry_discount ?items (k, summed_quantity ?items k))"
    by (simp only: set_itemQuantities_of sum.reindex [OF inj] o_def)
  also have "\<dots> = (\<Sum>k\<in>item_id ` set ?items. id_discount ?items k)"
    by (rule sum.cong) (simp_all add: entry_discount_id)
  finally show ?thesis
    by (simp add: VolumeDiscount_apply_def foldl_addDiscount Let_def)
qed

lemma id_discount_below_10: "summed_quantity items i < 10 \<Longrightarrow> id_discount items i = 0"
  by (simp add: id_discount_def tier_fraction_def)

section \<open>The pricing tree\<close>

text \<open>
  Claim C1, amended. For every node none of whose groups has a negative discount, the
  price that \<open>getPrice\<close> computes is the aggregate value of the reference definition:
  unit price times quantity for a leaf, and the sum of the children's aggregate values
  times \<open>1 - d\<close> times \<open>q\<close> for a group with discount \<open>d\<close> and multiplier quantity \<open>q\<close>.
  A group without children is worth \<open>0\<close>, whatever its discount.
\<close>

theorem C1_getPrice_matches_reference:
  "(discounts_nonneg c \<longrightarrow> getPrice c = aggregateValue c) \<and>
   getPrice (Bundle r n q d []) = 0"
  by (simp add: getPrice_eq_aggregateValue)

theorem C1_getPrice_matches_reference_witness:
  "discounts_nonneg nested_bundle \<and> getPrice nested_bundle = aggregateValue nested_bundle \<and>
   aggregateValue nested_bundle = 54.15"
  using C1_getPrice_matches_reference [of nested_bundle]
  by (simp add: nested_bundle_def mk_item_def)

text \<open>
  Claim C1 as it is written, for every group, fails on a group with a negative discount:
  \<open>getPrice\<close> leaves the sum of 10 as it is, the reference definition multiplies it by 1.5.
\<close>

theorem C1_negative_discount_counterexample:
  "getPrice negative_discount_bundle = 10 \<and> aggregateValue negative_discount_bundle = 15 \<and>
   getPrice negative_discount_bundle \<noteq> aggregateValue negative_discount_bundle"
  by (simp add: negative_discount_bundle_def mk_item_def)

text \<open>
  Claim C9. A node in which every item has a unit price of at least \<open>0\<close> and a quantity
  of at least \<open>1\<close>, and every group a multiplier quantity of at least \<open>1\<close> and a discount
  in \<open>[0, 1)\<close>, has a non-negative price; so the subtotal of a cart of such nodes is
  non-negative.
\<close>

theorem C9_price_nonnegative:
  "(valid_node c \<longrightarrow> 0 \<le> getPrice c) \<and>
   (list_all valid_node (components cart) \<longrightarrow> 0 \<le> getSubtotal cart)"
proof -
  have "0 \<le> getSubtotal cart" if "list_all valid_node (components cart)"
    unfolding getSubtotal_sum_list
    using that by (intro sum_list_map_nonneg) (simp add: list_all_iff getPrice_nonneg)
  then show ?thesis by (simp add: getPrice_nonneg)
qed

theorem C9_price_nonnegative_witness:
  "valid_node nested_bundle \<and> 0 \<le> getPrice nested_bundle \<and>
   list_all valid_node (components negative_total_cart) \<and> 0 \<le> getSubtotal negative_total_cart"
  using C9_price_nonnegative [of nested_bundle negative_total_cart]
  by (simp add: nested_bundle_def negative_total_cart_def mk_item_def)

text \<open>
  Claim C10. A bundle with a negative discount is priced as if its discount were \<open>0\<close>:
  its price is the sum of its children's prices times its quantity, since the discount
  is applied only when it is greater than \<open>0\<close>. The constructor and \<open>getPrice\<close> are
  total: no discount is rejected.
\<close>

theorem C10_negative_discount_ignored:
  "d < 0 \<Longrightarrow>
     getPrice (Bundle r n q d cs) = sum_list (map getPrice cs) * q \<and>
     getPrice (Bundle r n q d cs) = getPrice (Bundle r n q 0 cs)"
  by (simp only: getPrice_Bundle) simp

theorem C10_negative_discount_ignored_witness:
  "(- 0.5 :: real) < 0 \<and>
   getPrice (Bundle 1 ''bundle'' 2 (- 0.5) [Product 2 (mk_item ''item1'' 10 1)]) = 20"
  using C10_negative_discount_ignored
    [of "- 0.5" 1 "''bundle''" 2 "[Product 2 (mk_item ''item1'' 10 1)]"]
  by (simp add: mk_item_def)

text \<open>
  Claim C8. Removing a component that the array does not hold changes nothing, in
  \<open>Cart.removeComponent\<close> and in \<open>Bundle.remove\<close>: the cart, respectively the bundle, is
  returned as it was, and no error exists to be raised. Removing a component that the array
  holds takes out its first occurrence and nothing else.
\<close>

theorem C8_remove:
  "((\<forall>x\<in>set (components cart). \<not> strict_eq x c) \<longrightarrow> removeComponent cart c = cart) \<and>
   ((\<forall>x\<in>set cs. \<not> strict_eq x c) \<longrightarrow>
      Bundle_remove (Bundle r n q d cs) c = Bundle r n q d cs) \<and>
   (strict_eq x c \<and> (\<forall>y\<in>set ys. \<not> strict_eq y c) \<longrightarrow>
      removeComponent (cart\<lparr>components := ys @ x # zs\<rparr>) c = cart\<lparr>components := ys @ zs\<rparr> \<and>
      Bundle_remove (Bundle r n q d (ys @ x # zs)) c = Bundle r n q d (ys @ zs))"
  by (simp add: removeComponent_def indexOf_absent indexOf_first splice1_at)

theorem C8_remove_witness:
  "list_all (\<lambda>x. \<not> strict_eq x (Product 7 item100)) (components twice_added_cart) \<and>
   removeComponent twice_added_cart (Product 7 item100) = twice_added_cart \<and>
   Bundle_remove (Bundle 9 ''b'' 1 0 [Product 2 item100]) (Product 7 item100)
     = Bundle 9 ''b'' 1 0 [Product 2 item100] \<and>
   strict_eq (Product 1 item100) (Product 1 item100) \<and>
   list_all (\<lambda>y. \<not> strict_eq y (Product 1 item100)) [Product 2 item100] \<and>
   removeComponent
     (twice_added_cart\<lparr>components := [Product 2 item100] @ Product 1 item100 # [Product 1 item100]\<rparr>)
     (Product 1 item100)
     = twice_added_cart\<lparr>components := [Product 2 item100, Product 1 item100]\<rparr>"
  using C8_remove [of twice_added_cart "Product 7 item100" "[Product 2 item100]" 9 "''b''" 1 0]
    C8_remove [of twice_added_cart "Product 1 item100" "[]" 9 "''b''" 1 0
      "Product 1 item100" "[Product 2 item100]" "[Product 1 item100]"]
  by (simp add: twice_added_cart_def strict_eq_def)


section \<open>The adjustment pipeline\<close>

text \<open>
  Claim C2. For every cart and every list of registered strategies, \<open>calculateTotal\<close> is
  the left-to-right fold of the strategies, in registration order, from the unrounded
  subtotal (the sum of the prices of the top-level components); each strategy receives the
  current amount and the flattened item list of the cart, taken once; the result of the
  fold is rounded to two decimals, once. Without strategies the total is the rounded
  subtotal.
\<close>

theorem C2_calculateTotal_fold:
  "calculateTotal today cart =
     real_of_int (Math_round
       (foldl (\<lambda>amount rule. apply_strategy rule today amount
                 \<lparr>customer = cart_customer cart,
                  cartItems = concat (map flattenItems (components cart)),
                  intermediateAmount = amount\<rparr>)
          (sum_list (map getPrice (components cart))) (priceStrategies cart) * 100)) / 100
   \<and> (priceStrategies cart = [] \<longrightarrow>
        calculateTotal today cart =
          real_of_int (Math_round (sum_list (map getPrice (components cart)) * 100)) / 100)"
  by (simp add: calculateTotal_def strategies_loop_foldl getSubtotal_sum_list
      getAllCartItems_concat Let_def)

theorem C2_calculateTotal_fold_witness:
  "priceStrategies plain_cart = [] \<and> calculateTotal a_day plain_cart = 100 \<and>
   calculateTotal a_day newcustomer_vat_cart =
     real_of_int (Math_round (VAT_apply (NewCustomerDiscount_apply 100
        \<lparr>customer = new_customer, cartItems = [item100], intermediateAmount = 100\<rparr>)
        \<lparr>customer = new_customer, cartItems = [item100], intermediateAmount = 95\<rparr> * 100)) / 100"
  using C2_calculateTotal_fold [of a_day plain_cart]
    C2_calculateTotal_fold [of a_day newcustomer_vat_cart]
  by (simp add: plain_cart_def newcustomer_vat_cart_def item100_def mk_item_def Math_round_def
      NewCustomerDiscount_apply_def VAT_apply_def new_customer_def existing_customer_def)

text \<open>
  Claim C5. \<open>NewCustomerDiscountStrategy.apply\<close> returns the amount unchanged when the
  customer is not a new customer, and returns it unchanged when any item of the context is
  a sale item; otherwise it returns the amount less \<open>min (amount * 0.05) 100\<close>.
\<close>

theorem C5_new_customer_discount:
  "(\<not> isNewCustomer (customer context) \<longrightarrow>
      apply_strategy NewCustomerDiscountStrategy today amount context = amount) \<and>
   ((\<exists>item\<in>set (cartItems context). isSaleItem item = Some True) \<longrightarrow>
      apply_strategy NewCustomerDiscountStrategy today amount context = amount) \<and>
   (isNewCustomer (customer context) \<and>
    (\<forall>item\<in>set (cartItems context). isSaleItem item \<noteq> Some True) \<longrightarrow>
      apply_strategy NewCustomerDiscountStrategy today amount context =
        amount - min (amount * 0.05) 100)"
  by (simp add: NewCustomerDiscount_apply_def some_iff truthy_iff Let_def)

theorem C5_new_customer_discount_witness:
  "\<not> isNewCustomer (customer existing_customer_context) \<and>
   apply_strategy NewCustomerDiscountStrategy a_day 100 existing_customer_context = 100 \<and>
   (\<exists>item\<in>set (cartItems sale_context). isSaleItem item = Some True) \<and>
   apply_strategy NewCustomerDiscountStrategy a_day 200 sale_context = 200 \<and>
   isNewCustomer (customer new_customer_context) \<and>
   list_all (\<lambda>item. isSaleItem item \<noteq> Some True) (cartItems new_customer_context) \<and>
   apply_strategy NewCustomerDiscountStrategy a_day 100 new_customer_context = 95 \<and>
   apply_strategy NewCustomerDiscountStrategy a_day 5000 new_customer_context = 4900"
  using C5_new_customer_discount [of existing_customer_context a_day 100]
    C5_new_customer_discount [of sale_context a_day 200]
    C5_new_customer_discount [of new_customer_context a_day 100]
    C5_new_customer_discount [of new_customer_context a_day 5000]
  by (simp add: existing_customer_context_def sale_context_def new_customer_context_def
      existing_customer_def new_customer_def item100_def item100_sale_def mk_item_def)

text \<open>
  Claim C3. \<open>VolumeDiscountStrategy.apply\<close> returns the amount less the sum, over the ids
  of the item list, of the discount of the id: the unit price of the first item with that
  id, times the quantity of the id summed over the whole list, times the fraction of the
  highest tier of 10 \<rightarrow> 5%, 20 \<rightarrow> 10%, 50 \<rightarrow> 20% that the summed quantity reaches. When no
  id reaches the quantity 10 the amount is returned unchanged. A single id with price 10
  and quantity 15 turns 150 into 142.5.
\<close>

theorem C3_volume_discount:
  "apply_strategy VolumeDiscountStrategy today amount context =
     amount - (\<Sum>i\<in>item_id ` set (cartItems context). id_discount (cartItems context) i)
   \<and> ((\<forall>item\<in>set (cartItems context).
          summed_quantity (cartItems context) (item_id item) < 10) \<longrightarrow>
        apply_strategy VolumeDiscountStrategy today amount context = amount)"
proof -
  have "(\<Sum>i\<in>item_id ` set (cartItems context). id_discount (cartItems context) i) = 0"
    if "\<forall>item\<in>set (cartItems context). summed_quantity (cartItems context) (item_id item) < 10"
    using that by (intro sum.neutral) (auto simp: id_discount_below_10)
  then show ?thesis
    by (simp add: VolumeDiscount_apply_spec)
qed

theorem C3_volume_discount_witness:
  "apply_strategy VolumeDiscountStrategy a_day 150 volume_context = 142.5 \<and>
   list_all (\<lambda>item. summed_quantity (cartItems small_context) (item_id item) < 10)
     (cartItems small_context) \<and>
   apply_strategy VolumeDiscountStrategy a_day 111 small_context = 111"
  using C3_volume_discount [of a_day 150 volume_context]
    C3_volume_discount [of a_day 111 small_context]
  by (simp add: volume_context_def small_context_def mk_item_def id_discount_def
      first_price_def summed_quantity_def tier_fraction_def)




text \<open>
  Claim C6, amended. No call of \<open>apply\<close> of the four rules changes the context or its
  contents: the state after the call is the state before it. The results of
  NewCustomerDiscount, VolumeDiscount and VAT are determined by the amount and the context
  alone: two calls with the same amount and the same context return the same result,
  whatever the clock shows. BirthdayDiscount also reads the clock: two calls with the same
  amount and context return the same result when today is the customer's birthday (month
  and day) at both calls or at neither.
\<close>

theorem C6_apply_determined:
  "snd (call_apply s amount rt) = rt \<and>
   fst (call_apply s amount rt) = apply_strategy s (clock rt) amount (context_object rt) \<and>
   (s \<noteq> BirthdayDiscountStrategy \<and> context_object rt1 = context_object rt2 \<longrightarrow>
      fst (call_apply s amount rt1) = fst (call_apply s amount rt2)) \<and>
   (context_object rt1 = context_object rt2 \<and>
    map_option (isBirthday (clock rt1)) (birthday (customer (context_object rt1))) =
    map_option (isBirthday (clock rt2)) (birthday (customer (context_object rt2))) \<longrightarrow>
      fst (call_apply s amount rt1) = fst (call_apply s amount rt2))"
proof -
  have other: "fst (call_apply s amount rt1) = fst (call_apply s amount rt2)"
    if "s \<noteq> BirthdayDiscountStrategy" and "context_object rt1 = context_object rt2"
    using that
    by (cases s)
       (simp_all add: NewCustomerDiscount_call_def VAT_call_def VolumeDiscount_call_def Let_def)
  have bday: "fst (call_apply s amount rt1) = fst (call_apply s amount rt2)"
    if "context_object rt1 = context_object rt2"
      and "map_option (isBirthday (clock rt1)) (birthday (customer (context_object rt1))) =
           map_option (isBirthday (clock rt2)) (birthday (customer (context_object rt2)))"
  proof (cases "s = BirthdayDiscountStrategy")
    case True
    then show ?thesis
      using that by (auto simp: BirthdayDiscount_call_def Let_def split: option.splits)
  next
    case False
    then show ?thesis using that(1) by (rule other)
  qed
  from call_apply_state [of s amount rt] call_apply_result [of s amount rt] other bday
  show ?thesis by blast
qed

theorem C6_apply_determined_witness:
  "snd (call_apply VolumeDiscountStrategy 150 \<lparr>clock = a_day, context_object = volume_context\<rparr>)
     = \<lparr>clock = a_day, context_object = volume_context\<rparr> \<and>
   VolumeDiscountStrategy \<noteq> BirthdayDiscountStrategy \<and>
   fst (call_apply VolumeDiscountStrategy 150 \<lparr>clock = a_day, context_object = volume_context\<rparr>)
     = fst (call_apply VolumeDiscountStrategy 150
              \<lparr>clock = next_day, context_object = volume_context\<rparr>) \<and>
   map_option (isBirthday a_day) (birthday (customer birthday_context)) =
     map_option (isBirthday (a_day\<lparr>getFullYear := 2031\<rparr>))
       (birthday (customer birthday_context)) \<and>
   fst (call_apply BirthdayDiscountStrategy 100 \<lparr>clock = a_day, context_object = birthday_context\<rparr>)
     = fst (call_apply BirthdayDiscountStrategy 100
              \<lparr>clock = a_day\<lparr>getFullYear := 2031\<rparr>, context_object = birthday_context\<rparr>)"
  using C6_apply_determined [of VolumeDiscountStrategy 150
      "\<lparr>clock = a_day, context_object = volume_context\<rparr>"
      "\<lparr>clock = a_day, context_object = volume_context\<rparr>"
      "\<lparr>clock = next_day, context_object = volume_context\<rparr>"]
    C6_apply_determined [of BirthdayDiscountStrategy 100
      "\<lparr>clock = a_day, context_object = birthday_context\<rparr>"
      "\<lparr>clock = a_day, context_object = birthday_context\<rparr>"
      "\<lparr>clock = a_day\<lparr>getFullYear := 2031\<rparr>, context_object = birthday_context\<rparr>"]
  by (simp add: isBirthday_def a_day_def birthday_context_def birthday_customer_def)

text \<open>
  Claim C6 as it is written fails for BirthdayDiscount: with the same amount and the same
  context, the call on the customer's birthday returns 97 and the call a day later 100.
\<close>

theorem C6_birthday_counterexample:
  "apply_strategy BirthdayDiscountStrategy a_day 100 birthday_context = 97 \<and>
   apply_strategy BirthdayDiscountStrategy next_day 100 birthday_context = 100 \<and>
   fst (call_apply BirthdayDiscountStrategy 100
          \<lparr>clock = a_day, context_object = birthday_context\<rparr>) = 97 \<and>
   fst (call_apply BirthdayDiscountStrategy 100
          \<lparr>clock = next_day, context_object = birthday_context\<rparr>) = 100"
  by (simp add: BirthdayDiscount_apply_def BirthdayDiscount_call_def birthday_context_def
      birthday_customer_def existing_customer_def item100_def mk_item_def isBirthday_def
      a_day_def next_day_def)

section \<open>Bonus points\<close>

text \<open>
  Claim C7, amended. \<open>calculateBonusPoints\<close> is the sum, over the items eligible for
  bonus in the flattened item list of the top-level components, of the floor of the double
  product \<open>price * quantity\<close>, which is the exact product rounded to the nearest double;
  the sum is taken times 10 when month and day of the customer's birthday are today's. The
  registered strategies do not enter.
\<close>

theorem C7_bonus_points:
  "calculateBonusPoints today cart =
     (\<Sum>item\<leftarrow>filter (\<lambda>i. isEligibleForBonus i = Some True)
                 (concat (map flattenItems (components cart))).
        \<lfloor>js_mul (price item) (quantity item)\<rfloor>)
     * (if \<exists>b. birthday (cart_customer cart) = Some b \<and> getMonth b = getMonth today
               \<and> getDate b = getDate today then 10 else 1)
   \<and> calculateBonusPoints today (cart\<lparr>priceStrategies := rules\<rparr>) = calculateBonusPoints today cart"
  by (auto simp: calculateBonusPoints_def getAllCartItems_concat
      foldl_bonus truthy_iff isBirthday_def Let_def split: option.splits)

theorem C7_bonus_points_witness:
  "calculateBonusPoints a_day bonus_cart = 15290 \<and>
   calculateBonusPoints next_day bonus_cart = 1529 \<and>
   calculateBonusPoints a_day (bonus_cart\<lparr>priceStrategies := []\<rparr>) = 15290"
proof -
  have p1: "\<lfloor>js_mul 1500 1\<rfloor> = 1500"
    unfolding product_1500_times_1 by simp
  have p2: "\<lfloor>js_mul (binary64 9.99) 3\<rfloor> = 29"
    unfolding product_9_99_times_3 by simp
  show ?thesis
    using C7_bonus_points [of a_day bonus_cart "[]"] C7_bonus_points [of next_day bonus_cart "[]"]
      p1 p2
    by (simp add: bonus_cart_def birthday_customer_def existing_customer_def mk_item_def
        a_day_def next_day_def)
qed

text \<open>
  Claim C7 as it is written, with the floor of the product \<open>price * quantity\<close>, fails
  where the double product falls on the other side of an integer. Ten units at the double
  0.7: the exact product is below 7 and its floor is 6, the double product is 7 and the
  points are 7. A hundred units at 4.35: the decimal product is 435, the double product is
  below 435 and the points are 434.
\<close>

theorem C7_exact_product_counterexample:
  "calculateBonusPoints a_day seven_tenths_cart = 7 \<and>
   (\<Sum>item\<leftarrow>getAllCartItems seven_tenths_cart. \<lfloor>price item * quantity item\<rfloor>) = 6 \<and>
   calculateBonusPoints a_day four_thirty_five_cart = 434 \<and>
   \<lfloor>(4.35 :: real) * 100\<rfloor> = 435"
proof -
  have p1: "\<lfloor>js_mul (binary64 0.7) 10\<rfloor> = 7"
    unfolding product_0_7_times_10 by simp
  have p2: "\<lfloor>binary64 0.7 * 10\<rfloor> = 6"
    unfolding double_0_7 by simp
  have p3: "\<lfloor>js_mul (binary64 4.35) 100\<rfloor> = 434"
    unfolding product_4_35_times_100 by simp
  show ?thesis
    using p1 p2 p3
    by (simp add: calculateBonusPoints_def getAllCartItems_def seven_tenths_cart_def
        four_thirty_five_cart_def mk_item_def existing_customer_def Let_def)
qed

end
